theory Spec2Isabelle
  imports Main "HOL-Library.Sublist" "HOL-Library.Char_ord" "HOL-Library.List_Lexorder"
begin

section \<open>Fleet Commander: the Git collaborator and the observable trace\<close>

text \<open>
  The script \<^verbatim>\<open>fleet_ops.py\<close> orchestrates calls into a Git binding and prints what it
  did. Every call into the binding, the file system or the terminal is an effect, so the
  model makes three things explicit:
  \<^item> the outcome of each external call is a field of a record (\<open>git_repo\<close>, \<open>remote\<close>,
    \<open>world\<close>): either the value the call returns or the exception it raises;
  \<^item> every function returns the list of events it produced (lines printed, Git calls
    made, prompts shown) together with its result;
  \<^item> a raised exception is the \<open>Inl\<close> branch of the result, so that each
    \<^verbatim>\<open>try\<close>/\<^verbatim>\<open>except\<close> of the source is a visible handler.
  Strings are ASCII; the emoji of the printed lines are left out of the messages.

  Left out: \<^verbatim>\<open>show_git_log\<close>, which nothing calls; the check at load time that the
  binding is installed; and signals that interrupt the process, which the script does
  not handle. An outcome is what the call gives at the moment the script makes it.
\<close>

datatype exn_class =
  OSError | FileNotFoundError | EOFError | ValueError
  | AttributeError | TypeError | GitCommandError | InvalidGitRepositoryError

datatype exn = Exn exn_class string

text \<open>
  \<^verbatim>\<open>except OSError\<close> catches \<^verbatim>\<open>OSError\<close> and its subclass
  \<^verbatim>\<open>FileNotFoundError\<close>; \<^verbatim>\<open>except Exception\<close> and a bare \<^verbatim>\<open>except:\<close>
  catch every class above.
\<close>

fun is_OSError :: "exn \<Rightarrow> bool" where
  "is_OSError (Exn c m) = (c = OSError \<or> c = FileNotFoundError)"

fun is_FileNotFoundError :: "exn \<Rightarrow> bool" where
  "is_FileNotFoundError (Exn c m) = (c = FileNotFoundError)"

fun is_Exception :: "exn \<Rightarrow> bool" where
  "is_Exception (Exn c m) = True"

datatype git_call = GitAddAll | GitCommit string | GitFetch | GitPull | GitPush

datatype sync_state = Synced | UnsavedWork | Ahead int | Behind int

datatype message =
    MsgProcessing string
  | MsgFileStatus string
  | MsgModified string
  | MsgNewFile string
  | MsgBlank
  | MsgLocalSaved
  | MsgPulled
  | MsgPushed
  | MsgAlreadyClean
  | MsgErrorSyncing exn
  | MsgWarnNoDirectory string
  | MsgCurrentMode string
  | MsgCheckFolder
  | MsgRunSetupStorage
  | MsgBanner string
  | MsgScanning string
  | MsgRepoLine nat sync_state string string
  | MsgErrorScanning exn
  | MsgNoRepositories string
  | MsgSeparator
  | MsgMenuSyncAll
  | MsgMenuSetup
  | MsgMenuRefresh
  | MsgMenuQuit
  | MsgSystemSetup
  | MsgSetupInstallAlias
  | MsgSetupGenerateIgnore
  | MsgConfiguringAlias string
  | MsgAliasActive
  | MsgAliasAdded
  | MsgRestartTerminal
  | MsgCreatedGitignore
  | MsgGitignoreExists
  | MsgStartingBatch
  | MsgManaging string

datatype prompt =
    PromptExit
  | PromptCommand
  | PromptSelect
  | PromptEnter
  | PromptRepoNumber nat
  | PromptBatchComplete
  | PromptSyncThis
  | PromptCommitMessage
  | PromptDone

datatype event =
    Print message
  | Call git_call
  | Input prompt
  | Clear
  | FileWrite string string
  | FileAppend string string

type_synonym 'a io = "event list \<times> (exn + 'a)"

definition ret :: "'a \<Rightarrow> 'a io" where
  "ret x = ([], Inr x)"

definition emit :: "event \<Rightarrow> unit io" where
  "emit ev = ([ev], Inr ())"

definition lift :: "exn + 'a \<Rightarrow> 'a io" where
  "lift r = ([], r)"

definition call :: "git_call \<Rightarrow> exn option \<Rightarrow> unit io" where
  "call c outcome = ([Call c], case outcome of None \<Rightarrow> Inr () | Some e \<Rightarrow> Inl e)"

definition bind :: "'a io \<Rightarrow> ('a \<Rightarrow> 'b io) \<Rightarrow> 'b io" where
  "bind m f =
     (case m of
        (t, Inl e) \<Rightarrow> (t, Inl e)
      | (t, Inr x) \<Rightarrow> (case f x of (t', r) \<Rightarrow> (t @ t', r)))"

definition try_except :: "'a io \<Rightarrow> (exn \<Rightarrow> bool) \<Rightarrow> (exn \<Rightarrow> 'a io) \<Rightarrow> 'a io" where
  "try_except m catches handler =
     (case m of
        (t, Inl e) \<Rightarrow>
          (if catches e then (case handler e of (t', r) \<Rightarrow> (t @ t', r)) else (t, Inl e))
      | (t, Inr x) \<Rightarrow> (t, Inr x))"

fun calls :: "event list \<Rightarrow> git_call list" where
  "calls [] = []"
| "calls (Call c # t) = c # calls t"
| "calls (ev # t) = calls t"

subsection \<open>The binding's objects\<close>

text \<open>
  A \<open>remote\<close> is one entry of \<^verbatim>\<open>repo.remotes\<close>; \<open>fetch\<close>, \<open>pull\<close> and \<open>push\<close> give
  the exception the call raises, or \<open>None\<close> when it succeeds. A \<open>git_repo\<close> is the
  \<^verbatim>\<open>Repo\<close> object: \<open>active_branch\<close> is the name of \<^verbatim>\<open>repo.active_branch\<close> (the
  binding raises when HEAD is detached), \<open>iter_commits\<close> gives for a revision range the
  number of commits the iteration yields, \<open>index_diff\<close> the paths of
  \<^verbatim>\<open>repo.index.diff(None)\<close>, \<open>git_add\<close> the outcome of \<^verbatim>\<open>repo.git.add(all=True)\<close> and
  \<open>index_commit\<close> that of \<^verbatim>\<open>repo.index.commit(message)\<close>.
\<close>

record remote =
  remote_name :: string
  fetch :: "exn option"
  pull :: "exn option"
  push :: "exn option"

record git_repo =
  working_dir :: string
  active_branch :: "exn + string"
  is_dirty :: "exn + bool"
  remotes :: "remote list"
  tracking_branch :: "exn + string option"
  iter_commits :: "string \<Rightarrow> exn + nat"
  index_diff :: "exn + string list"
  untracked_files :: "exn + string list"
  git_add :: "exn option"
  index_commit :: "string \<Rightarrow> exn option"

text \<open>
  \<^verbatim>\<open>repo.remotes.origin\<close> is an attribute lookup by name on the list of remotes: the
  binding returns the remote called \<^verbatim>\<open>origin\<close> and raises \<^verbatim>\<open>AttributeError\<close> when no
  remote has that name.
\<close>

definition remotes_origin :: "git_repo \<Rightarrow> exn + remote" where
  "remotes_origin r =
     (case find (\<lambda>x. remote_name x = ''origin'') (remotes r) of
        Some x \<Rightarrow> Inr x
      | None \<Rightarrow> Inl (Exn AttributeError ''IterableList object has no attribute origin''))"

text \<open>The status dictionary built by \<^verbatim>\<open>get_git_status\<close>.\<close>

record repo_status =
  path :: string
  name :: string
  dirty :: bool
  ahead :: int
  behind :: int
  repo :: git_repo
  branch :: string

text \<open>\<^verbatim>\<open>os.path.basename\<close>: what follows the last slash.\<close>

definition basename :: "string \<Rightarrow> string" where
  "basename p = rev (takeWhile (\<lambda>c. c \<noteq> CHR ''/'') (rev p))"

text \<open>\<^verbatim>\<open>os.path.join\<close> on two components.\<close>

definition path_join :: "string \<Rightarrow> string \<Rightarrow> string" where
  "path_join a b =
     (if b \<noteq> [] \<and> hd b = CHR ''/'' then b
      else if a = [] \<or> last a = CHR ''/'' then a @ b
      else a @ ''/'' @ b)"

section \<open>Sync Executor\<close>

definition show_file_details :: "git_repo \<Rightarrow> unit io" where
  "show_file_details r =
     bind (emit (Print (MsgFileStatus (basename (working_dir r))))) (\<lambda>_.
     bind (lift (index_diff r)) (\<lambda>changed.
     bind (map (\<lambda>a_path. Print (MsgModified a_path)) changed, Inr ()) (\<lambda>_.
     bind (lift (untracked_files r)) (\<lambda>untracked.
     bind (map (\<lambda>item. Print (MsgNewFile item)) untracked, Inr ()) (\<lambda>_.
     emit (Print MsgBlank))))))"

text \<open>Lines 155 to 159: the save step, outside every handler.\<close>

definition save_changes :: "repo_status \<Rightarrow> string \<Rightarrow> unit io" where
  "save_changes repo_data auto_message =
     (if dirty repo_data then
        bind (show_file_details (repo repo_data)) (\<lambda>_.
        bind (call GitAddAll (git_add (repo repo_data))) (\<lambda>_.
        bind (call (GitCommit auto_message) (index_commit (repo repo_data) auto_message)) (\<lambda>_.
        emit (Print MsgLocalSaved))))
      else ret ())"

text \<open>Lines 163 to 172: the body of the \<^verbatim>\<open>try\<close>.\<close>

definition push_pull :: "repo_status \<Rightarrow> unit io" where
  "push_pull repo_data =
     bind (lift (remotes_origin (repo repo_data))) (\<lambda>origin.
     bind (if behind repo_data > 0
           then bind (call GitPull (pull origin)) (\<lambda>_. emit (Print MsgPulled))
           else ret ()) (\<lambda>_.
     bind (if dirty repo_data \<or> ahead repo_data > 0
           then bind (call GitPush (push origin)) (\<lambda>_. emit (Print MsgPushed))
           else ret ()) (\<lambda>_.
     if \<not> dirty repo_data \<and> ahead repo_data = 0 \<and> behind repo_data = 0
     then emit (Print MsgAlreadyClean)
     else ret ())))"

definition sync_repo :: "repo_status \<Rightarrow> string \<Rightarrow> unit io" where
  "sync_repo repo_data auto_message =
     bind (emit (Print (MsgProcessing (name repo_data)))) (\<lambda>_.
     bind (save_changes repo_data auto_message) (\<lambda>_.
     try_except (push_pull repo_data) is_Exception
       (\<lambda>e. emit (Print (MsgErrorSyncing e)))))"

text \<open>Lines 247 to 249: the batch loop of the dashboard.\<close>

fun sync_all :: "repo_status list \<Rightarrow> unit io" where
  "sync_all [] = ret ()"
| "sync_all (repo_data # rest) =
     bind (sync_repo repo_data ''Auto-sync via Fleet Commander'') (\<lambda>_. sync_all rest)"

section \<open>The environment\<close>

text \<open>
  What the script reads from the operating system: the file
  system (\<^verbatim>\<open>os.path.exists\<close>, \<^verbatim>\<open>os.path.isdir\<close>, \<^verbatim>\<open>os.listdir\<close>, which raises
  \<^verbatim>\<open>OSError\<close> with a message), the constructor \<^verbatim>\<open>Repo(path)\<close>, and the files the
  setup actions read and write.
\<close>

record world =
  path_exists :: "string \<Rightarrow> bool"
  path_isdir :: "string \<Rightarrow> bool"
  listdir :: "string \<Rightarrow> string + string list"
  open_repo :: "string \<Rightarrow> exn + git_repo"
  bashrc_path :: string
  script_path :: string
  read_file :: "string \<Rightarrow> exn + string"
  append_file :: "string \<Rightarrow> string \<Rightarrow> exn option"
  write_file :: "string \<Rightarrow> string \<Rightarrow> exn option"

text \<open>Python's \<^verbatim>\<open>needle in text\<close> on strings.\<close>

fun str_contains :: "string \<Rightarrow> string \<Rightarrow> bool" where
  "str_contains needle [] = (needle = [])"
| "str_contains needle (c # cs) = (prefix needle (c # cs) \<or> str_contains needle cs)"

text \<open>
  Lines 22 to 29: the device name and the root directory are chosen once, when the
  module is loaded, from the \<^verbatim>\<open>PREFIX\<close> variable.
\<close>

record config =
  DEVICE_NAME :: string
  ROOT_DIR :: string

definition detect_environment :: "string \<Rightarrow> config" where
  "detect_environment prefix_var =
     (if str_contains ''com.termux'' prefix_var
      then \<lparr>DEVICE_NAME = ''Pixel 8a (Mobile)'', ROOT_DIR = ''/storage/emulated/0/pixel8a/unexusi/''\<rparr>
      else \<lparr>DEVICE_NAME = ''Laptop (Base)'', ROOT_DIR = ''/home/sauron/unexusi/''\<rparr>)"

definition DEFAULT_IGNORE :: string where
  "DEFAULT_IGNORE =
     ''\<newline>__pycache__/\<newline>*.pyc\<newline>.DS_Store\<newline>.vscode/\<newline>env/\<newline>venv/\<newline>''"

definition check_permissions :: "config \<Rightarrow> world \<Rightarrow> bool io" where
  "check_permissions cfg w =
     (if \<not> path_exists w (ROOT_DIR cfg) then
        bind (emit (Print (MsgWarnNoDirectory (ROOT_DIR cfg)))) (\<lambda>_.
        bind (emit (Print (MsgCurrentMode (DEVICE_NAME cfg)))) (\<lambda>_.
        bind (if str_contains ''Mobile'' (DEVICE_NAME cfg)
              then bind (emit (Print MsgCheckFolder)) (\<lambda>_. emit (Print MsgRunSetupStorage))
              else ret ()) (\<lambda>_.
        ret False)))
      else ret True)"

definition setup_alias :: "config \<Rightarrow> world \<Rightarrow> unit io" where
  "setup_alias cfg w =
     (let alias_cmd = ''alias fleet='' @ [CHR 0x22] @ ''python '' @ script_path w @ [CHR 0x22] in
      bind (emit (Print (MsgConfiguringAlias (DEVICE_NAME cfg)))) (\<lambda>_.
      bind (try_except
              (bind (lift (read_file w (bashrc_path w))) (\<lambda>content.
               if str_contains alias_cmd content
               then bind (emit (Print MsgAliasActive)) (\<lambda>_. ret True)
               else ret False))
              is_FileNotFoundError (\<lambda>_. ret False)) (\<lambda>already_active.
      if already_active then ret ()
      else
        bind ([FileAppend (bashrc_path w) (''\<newline>'' @ alias_cmd @ ''\<newline>'')],
              case append_file w (bashrc_path w) (''\<newline>'' @ alias_cmd @ ''\<newline>'') of
                None \<Rightarrow> Inr () | Some e \<Rightarrow> Inl e) (\<lambda>_.
        bind (emit (Print MsgAliasAdded)) (\<lambda>_.
        emit (Print MsgRestartTerminal))))))"

definition create_gitignore :: "world \<Rightarrow> string \<Rightarrow> unit io" where
  "create_gitignore w repo_path =
     (let ignore_path = path_join repo_path ''.gitignore'' in
      if \<not> path_exists w ignore_path then
        bind ([FileWrite ignore_path DEFAULT_IGNORE],
              case write_file w ignore_path DEFAULT_IGNORE of
                None \<Rightarrow> Inr () | Some e \<Rightarrow> Inl e) (\<lambda>_.
        emit (Print MsgCreatedGitignore))
      else emit (Print MsgGitignoreExists))"

section \<open>Status Inspector\<close>

text \<open>
  Lines 110 to 113: the branch name, \<^verbatim>\<open>DETACHED\<close> when reading it raises.
\<close>

definition resolve_branch :: "git_repo \<Rightarrow> repo_status \<Rightarrow> repo_status io" where
  "resolve_branch r status =
     try_except
       (bind (lift (active_branch r)) (\<lambda>b. ret (status\<lparr>branch := b\<rparr>)))
       is_Exception
       (\<lambda>_. ret (status\<lparr>branch := ''DETACHED''\<rparr>))"

text \<open>
  Lines 120 to 130: the sync check. Its handler is \<^verbatim>\<open>except: pass\<close>, so the block
  never raises and the dictionary keeps the assignments made before the failing call:
  each failing call returns the status as it stands at that point.
\<close>

definition check_sync :: "git_repo \<Rightarrow> repo_status \<Rightarrow> event list \<times> repo_status" where
  "check_sync r status =
     (case remotes_origin r of
        Inl e \<Rightarrow> ([], status)
      | Inr origin \<Rightarrow>
          (case fetch origin of
             Some e \<Rightarrow> ([Call GitFetch], status)
           | None \<Rightarrow>
               (case active_branch r of
                  Inl e \<Rightarrow> ([Call GitFetch], status)
                | Inr local_branch \<Rightarrow>
                    (case tracking_branch r of
                       Inl e \<Rightarrow> ([Call GitFetch], status)
                     | Inr None \<Rightarrow> ([Call GitFetch], status)
                     | Inr (Some remote_branch) \<Rightarrow>
                         (case iter_commits r (local_branch @ ''..'' @ remote_branch) of
                            Inl e \<Rightarrow> ([Call GitFetch], status)
                          | Inr n_behind \<Rightarrow>
                              (case iter_commits r (remote_branch @ ''..'' @ local_branch) of
                                 Inl e \<Rightarrow> ([Call GitFetch], status\<lparr>behind := int n_behind\<rparr>)
                               | Inr n_ahead \<Rightarrow>
                                   ([Call GitFetch],
                                    status\<lparr>behind := int n_behind, ahead := int n_ahead\<rparr>)))))))"

definition get_git_status :: "world \<Rightarrow> string \<Rightarrow> repo_status option io" where
  "get_git_status w repo_path =
     try_except
       (bind (lift (open_repo w repo_path)) (\<lambda>r.
        bind (ret \<lparr>path = repo_path, name = basename repo_path, dirty = False,
                   ahead = 0, behind = 0, repo = r, branch = ''unknown''\<rparr>) (\<lambda>status.
        bind (resolve_branch r status) (\<lambda>status.
        bind (lift (is_dirty r)) (\<lambda>d.
        bind (ret (if d then status\<lparr>dirty := True\<rparr> else status)) (\<lambda>status.
        bind (case check_sync r status of (t, status') \<Rightarrow> (t, Inr status')) (\<lambda>status.
        ret (Some status))))))))
       is_Exception
       (\<lambda>_. ret None)"

section \<open>Dashboard Loop\<close>

subsection \<open>Console input and the string methods the dispatch uses\<close>

text \<open>
  The operator's lines are a finite list; \<^verbatim>\<open>input\<close> shows its prompt, takes the next
  line and raises \<^verbatim>\<open>EOFError\<close> when none is left.
\<close>

definition py_input :: "prompt \<Rightarrow> string list \<Rightarrow> (string \<times> string list) io" where
  "py_input p inputs =
     (case inputs of
        [] \<Rightarrow> ([Input p], Inl (Exn EOFError ''EOF when reading a line''))
      | line # rest \<Rightarrow> ([Input p], Inr (line, rest)))"

definition py_lower :: "string \<Rightarrow> string" where
  "py_lower s =
     map (\<lambda>c. if CHR ''A'' \<le> c \<and> c \<le> CHR ''Z'' then char_of (of_char c + (32::nat)) else c) s"

definition is_digit :: "char \<Rightarrow> bool" where
  "is_digit c = (CHR ''0'' \<le> c \<and> c \<le> CHR ''9'')"

definition py_isdigit :: "string \<Rightarrow> bool" where
  "py_isdigit s = (s \<noteq> [] \<and> list_all is_digit s)"

text \<open>
  \<^verbatim>\<open>int(s)\<close> on an ASCII string, base ten, as CPython parses it: white space (tab, line
  feed, vertical tab, form feed, carriage return, space) is skipped on both sides, one
  sign is allowed, then digits with single underscores between them. More than 4300
  digits raise \<^verbatim>\<open>ValueError\<close> as soon as they are counted, before what follows them is
  looked at; every other malformed string raises \<^verbatim>\<open>ValueError\<close> with the \<^verbatim>\<open>repr\<close> of the
  string, cut at 200 characters.
\<close>

definition is_space :: "char \<Rightarrow> bool" where
  "is_space c = (c \<in> set [CHR 0x09, CHR 0x0A, CHR 0x0B, CHR 0x0C, CHR 0x0D, CHR 0x20])"

text \<open>
  The scan of the digits: \<open>prev\<close> is the character before, \<open>seen\<close> the digits so far.
  It fails on two underscores in a row and on an underscore at the end of the run;
  otherwise it gives the digits and what follows the run.
\<close>

fun scan_digits :: "char \<Rightarrow> string \<Rightarrow> string \<Rightarrow> (string \<times> string) option" where
  "scan_digits prev seen [] = (if prev = CHR ''_'' then None else Some (seen, []))"
| "scan_digits prev seen (c # cs) =
     (if is_digit c then scan_digits c (seen @ [c]) cs
      else if c = CHR ''_'' then (if prev = CHR ''_'' then None else scan_digits c seen cs)
      else if prev = CHR ''_'' then None
      else Some (seen, c # cs))"

definition decimal :: "string \<Rightarrow> nat" where
  "decimal ds = foldl (\<lambda>acc c. 10 * acc + (of_char c - 48)) 0 ds"

fun show_nat :: "nat \<Rightarrow> string" where
  "show_nat n =
     (if n < 10 then [char_of (48 + n)] else show_nat (n div 10) @ [char_of (48 + n mod 10)])"

definition hex_digit :: "nat \<Rightarrow> char" where
  "hex_digit n = (if n < 10 then char_of (48 + n) else char_of (87 + n))"

text \<open>\<^verbatim>\<open>repr\<close> of an ASCII string.\<close>

definition py_repr :: "string \<Rightarrow> string" where
  "py_repr s =
     (let quote = (if CHR 0x27 \<in> set s \<and> CHR 0x22 \<notin> set s then CHR 0x22 else CHR 0x27);
          escape = (\<lambda>c.
            if c = quote \<or> c = CHR 0x5C then [CHR 0x5C, c]
            else if c = CHR 0x09 then [CHR 0x5C, CHR ''t'']
            else if c = CHR 0x0A then [CHR 0x5C, CHR ''n'']
            else if c = CHR 0x0D then [CHR 0x5C, CHR ''r'']
            else if (of_char c :: nat) < 32 \<or> c = CHR 0x7F
            then [CHR 0x5C, CHR ''x'', hex_digit (of_char c div 16), hex_digit (of_char c mod 16)]
            else [c])
      in [quote] @ concat (map escape s) @ [quote])"

definition invalid_literal :: "string \<Rightarrow> exn" where
  "invalid_literal s =
     Exn ValueError (''invalid literal for int() with base 10: '' @ take 200 (py_repr s))"

definition py_int :: "string \<Rightarrow> exn + int" where
  "py_int s =
     (let t = dropWhile is_space s;
          negative = (t \<noteq> [] \<and> hd t = CHR ''-'');
          body = (if t \<noteq> [] \<and> (hd t = CHR ''-'' \<or> hd t = CHR ''+'') then tl t else t)
      in if body \<noteq> [] \<and> hd body = CHR ''_'' then Inl (invalid_literal s)
         else
           (case scan_digits (CHR 0x00) [] body of
              None \<Rightarrow> Inl (invalid_literal s)
            | Some (digits, rest) \<Rightarrow>
                if length digits > 4300 then
                  Inl (Exn ValueError
                         (''Exceeds the limit (4300 digits) for integer string conversion: ''
                          @ ''value has '' @ show_nat (length digits)
                          @ '' digits; use sys.set_int_max_str_digits() to increase the limit''))
                else if digits = [] then Inl (invalid_literal s)
                else if dropWhile is_space rest \<noteq> [] then Inl (invalid_literal s)
                else Inr (if negative then - int (decimal digits) else int (decimal digits))))"

subsection \<open>The scan of one pass (lines 187 to 218)\<close>

definition status_line :: "nat \<Rightarrow> repo_status \<Rightarrow> message" where
  "status_line n stat =
     MsgRepoLine n
       (if dirty stat then UnsavedWork
        else if ahead stat > 0 then Ahead (ahead stat)
        else if behind stat > 0 then Behind (behind stat)
        else Synced)
       (name stat) (branch stat)"

text \<open>
  The \<^verbatim>\<open>for\<close> loop over the sorted folder names. \<^verbatim>\<open>repos_found\<close> is a variable of
  the enclosing function, so it keeps what was appended when an exception leaves the
  loop: the result is the events, the list, and the exception raised, if any.
\<close>

fun scan_folders ::
  "config \<Rightarrow> world \<Rightarrow> string list \<Rightarrow> repo_status list \<Rightarrow> event list \<times> repo_status list \<times> exn option"
where
  "scan_folders cfg w [] repos_found = ([], repos_found, None)"
| "scan_folders cfg w (folder_name # rest) repos_found =
     (let folder_path = path_join (ROOT_DIR cfg) folder_name in
      if path_isdir w folder_path \<and> path_isdir w (path_join folder_path ''.git'') then
        (case get_git_status w folder_path of
           (t, Inl e) \<Rightarrow> (t, repos_found, Some e)
         | (t, Inr None) \<Rightarrow>
             (case scan_folders cfg w rest repos_found of (t', r) \<Rightarrow> (t @ t', r))
         | (t, Inr (Some stat)) \<Rightarrow>
             (case scan_folders cfg w rest (repos_found @ [stat]) of
                (t', r) \<Rightarrow>
                  (t @ [Print (status_line (length (repos_found @ [stat])) stat)] @ t', r)))
      else scan_folders cfg w rest repos_found)"

definition scan_repos :: "config \<Rightarrow> world \<Rightarrow> repo_status list io" where
  "scan_repos cfg w =
     (case (if path_exists w (ROOT_DIR cfg) then
              (case listdir w (ROOT_DIR cfg) of
                 Inl m \<Rightarrow> ([], [], Some (Exn OSError m))
               | Inr folder_list \<Rightarrow> scan_folders cfg w (sort folder_list) [])
            else ([], [], None)) of
        (t, repos_found, raised) \<Rightarrow>
          (let none_found =
                 (if repos_found = [] then [Print (MsgNoRepositories (ROOT_DIR cfg))] else [])
           in case raised of
                None \<Rightarrow> (t @ none_found, Inr repos_found)
              | Some e \<Rightarrow>
                  (if is_OSError e
                   then (t @ [Print (MsgErrorScanning e)] @ none_found, Inr repos_found)
                   else (t, Inl e))))"

subsection \<open>One pass of the loop and the dispatch of a command\<close>

text \<open>
  The result of a pass is whether the loop goes on (\<open>False\<close> after \<^verbatim>\<open>q\<close>) and the
  lines not yet read.
\<close>

definition setup_menu ::
  "config \<Rightarrow> world \<Rightarrow> repo_status list \<Rightarrow> string list \<Rightarrow> (bool \<times> string list) io" where
  "setup_menu cfg w repos_found inputs =
     bind (emit (Print MsgSystemSetup)) (\<lambda>_.
     bind (emit (Print MsgSetupInstallAlias)) (\<lambda>_.
     bind (emit (Print MsgSetupGenerateIgnore)) (\<lambda>_.
     bind (py_input PromptSelect inputs) (\<lambda>(sub, inputs).
     if sub = ''1'' then
       bind (setup_alias cfg w) (\<lambda>_.
       bind (py_input PromptEnter inputs) (\<lambda>(_, inputs). ret (True, inputs)))
     else if sub = ''2'' then
       bind (py_input (PromptRepoNumber (length repos_found)) inputs) (\<lambda>(number, inputs).
       bind (lift (py_int number)) (\<lambda>n.
       bind (if 0 \<le> n - 1 \<and> n - 1 < int (length repos_found)
             then create_gitignore w (path (repos_found ! nat (n - 1)))
             else ret ()) (\<lambda>_.
       bind (py_input PromptEnter inputs) (\<lambda>(_, inputs). ret (True, inputs)))))
     else ret (True, inputs)))))"

definition manage_repo :: "repo_status list \<Rightarrow> string \<Rightarrow> string list \<Rightarrow> (bool \<times> string list) io" where
  "manage_repo repos_found choice inputs =
     bind (lift (py_int choice)) (\<lambda>n.
     if 0 \<le> n - 1 \<and> n - 1 < int (length repos_found) then
       (let target = repos_found ! nat (n - 1) in
        bind (emit (Print (MsgManaging (name target)))) (\<lambda>_.
        bind (if dirty target then show_file_details (repo target) else ret ()) (\<lambda>_.
        bind (py_input PromptSyncThis inputs) (\<lambda>(answer, inputs).
        bind (if py_lower answer = ''y'' then
                bind (py_input PromptCommitMessage inputs) (\<lambda>(typed, inputs).
                bind (sync_repo target
                        (if typed = [] then ''Update via Fleet Commander'' else typed)) (\<lambda>_.
                ret inputs))
              else ret inputs) (\<lambda>inputs.
        bind (py_input PromptDone inputs) (\<lambda>(_, inputs). ret (True, inputs)))))))
     else ret (True, inputs))"

definition dispatch ::
  "config \<Rightarrow> world \<Rightarrow> repo_status list \<Rightarrow> string \<Rightarrow> string list \<Rightarrow> (bool \<times> string list) io" where
  "dispatch cfg w repos_found choice inputs =
     (if choice = ''q'' then ret (False, inputs)
      else if choice = ''r'' then ret (True, inputs)
      else if choice = ''s'' then setup_menu cfg w repos_found inputs
      else if choice = ''a'' then
        bind (emit (Print MsgStartingBatch)) (\<lambda>_.
        bind (sync_all repos_found) (\<lambda>_.
        bind (py_input PromptBatchComplete inputs) (\<lambda>(_, inputs). ret (True, inputs))))
      else if py_isdigit choice then manage_repo repos_found choice inputs
      else ret (True, inputs))"

definition dashboard_pass ::
  "config \<Rightarrow> world \<Rightarrow> string list \<Rightarrow> (bool \<times> string list) io" where
  "dashboard_pass cfg w inputs =
     bind (emit Clear) (\<lambda>_.
     bind (emit (Print (MsgBanner (DEVICE_NAME cfg)))) (\<lambda>_.
     bind (emit (Print (MsgScanning (ROOT_DIR cfg)))) (\<lambda>_.
     bind (scan_repos cfg w) (\<lambda>repos_found.
     bind ([Print MsgSeparator, Print MsgMenuSyncAll, Print MsgMenuSetup,
            Print MsgMenuRefresh, Print MsgMenuQuit], Inr ()) (\<lambda>_.
     bind (py_input PromptCommand inputs) (\<lambda>(choice, inputs).
     dispatch cfg w repos_found (py_lower choice) inputs))))))"

subsection \<open>The loop and its entry\<close>

text \<open>
  \<open>worlds k\<close> is the environment as the \<open>k\<close>-th pass finds it; \<open>worlds 0\<close> is the one
  the entry check sees. Each pass reads at least the command line, so the loop ends
  when the operator quits or when the lines run out (\<^verbatim>\<open>EOFError\<close>).
\<close>

function dashboard_loop ::
  "config \<Rightarrow> (nat \<Rightarrow> world) \<Rightarrow> nat \<Rightarrow> string list \<Rightarrow> unit io" where
  "dashboard_loop cfg worlds k inputs =
     (case dashboard_pass cfg (worlds k) inputs of
        (t, Inl e) \<Rightarrow> (t, Inl e)
      | (t, Inr (False, rest)) \<Rightarrow> (t, Inr ())
      | (t, Inr (True, rest)) \<Rightarrow>
          (case dashboard_loop cfg worlds (Suc k) rest of (t', r) \<Rightarrow> (t @ t', r)))"
  by pat_completeness auto
termination
proof (relation "measure (\<lambda>(cfg, worlds, k, inputs). length inputs)")
  show "wf (measure (\<lambda>(cfg, worlds, k, inputs). length inputs))" by simp
next
  fix cfg :: config and worlds :: "nat \<Rightarrow> world" and k :: nat and inputs :: "string list"
    and t :: "event list" and r :: "exn + bool \<times> string list"
    and b :: "bool \<times> string list" and go :: bool and rest :: "string list"
  assume pass: "(t, r) = dashboard_pass cfg (worlds k) inputs" and r: "r = Inr b"
    and b: "(go, rest) = b" and go: "go = True"
  have setup_le: "length rest' \<le> length ins"
    if "setup_menu c w found ins = (t', Inr (g, rest'))" for c w found ins t' g rest'
    using that
    by (auto simp: setup_menu_def bind_def emit_def ret_def lift_def py_input_def
        split: prod.splits sum.splits list.splits if_splits)
  have manage_le: "length rest' \<le> length ins"
    if "manage_repo found ch ins = (t', Inr (g, rest'))" for found ch ins t' g rest'
    using that
    by (auto simp: manage_repo_def bind_def emit_def ret_def lift_def py_input_def Let_def
        split: prod.splits sum.splits list.splits if_splits)
  have dispatch_le: "length rest' \<le> length ins"
    if "dispatch c w found ch ins = (t', Inr (g, rest'))" for c w found ch ins t' g rest'
    using that setup_le[of c w found ins] manage_le[of found ch ins]
    by (auto simp: dispatch_def bind_def emit_def ret_def py_input_def
        split: prod.splits sum.splits list.splits if_splits)
  have "length rest < length inputs"
    using pass[symmetric] r b[symmetric]
    by (auto simp: dashboard_pass_def bind_def emit_def py_input_def
        split: prod.splits sum.splits list.splits if_splits dest!: dispatch_le)
  then show "((cfg, worlds, Suc k, rest), (cfg, worlds, k, inputs))
               \<in> measure (\<lambda>(cfg, worlds, k, inputs). length inputs)"
    by simp
qed

definition main_dashboard :: "config \<Rightarrow> (nat \<Rightarrow> world) \<Rightarrow> string list \<Rightarrow> unit io" where
  "main_dashboard cfg worlds inputs =
     bind (check_permissions cfg (worlds 0)) (\<lambda>ok.
     if \<not> ok then bind (py_input PromptExit inputs) (\<lambda>_. ret ())
     else dashboard_loop cfg worlds 1 inputs)"

section \<open>Notions used to state the properties\<close>


definition is_sync_error :: "event \<Rightarrow> bool" where
  "is_sync_error ev = (case ev of Print (MsgErrorSyncing e) \<Rightarrow> True | _ \<Rightarrow> False)"

text \<open>
  A folder of the root qualifies for the list when it is a directory, holds a
  \<^verbatim>\<open>.git\<close> directory, and its inspection returns a record.
\<close>

definition qualifies :: "config \<Rightarrow> world \<Rightarrow> string \<Rightarrow> bool" where
  "qualifies cfg w folder_name =
     (path_isdir w (path_join (ROOT_DIR cfg) folder_name) \<and>
      path_isdir w (path_join (path_join (ROOT_DIR cfg) folder_name) ''.git'') \<and>
      snd (get_git_status w (path_join (ROOT_DIR cfg) folder_name)) \<noteq> Inr None)"

section \<open>Example repositories and environments\<close>

definition example_origin :: remote where
  "example_origin = \<lparr>remote_name = ''origin'', fetch = None, pull = None, push = None\<rparr>"

text \<open>A repository with local changes, one commit behind its tracking branch.\<close>

definition example_repo :: git_repo where
  "example_repo =
     \<lparr>working_dir = ''/home/sauron/unexusi/alpha'',
      active_branch = Inr ''main'',
      is_dirty = Inr True,
      remotes = [example_origin],
      tracking_branch = Inr (Some ''origin/main''),
      iter_commits = (\<lambda>range. if range = ''main..origin/main'' then Inr 1 else Inr 0),
      index_diff = Inr [''README.md''],
      untracked_files = Inr [''notes.txt''],
      git_add = None,
      index_commit = (\<lambda>message. None)\<rparr>"

definition alpha_status :: repo_status where
  "alpha_status =
     \<lparr>path = ''/home/sauron/unexusi/alpha'', name = ''alpha'', dirty = True,
      ahead = 0, behind = 1, repo = example_repo, branch = ''main''\<rparr>"

text \<open>A clean repository, level with its remote.\<close>

definition synced_status :: repo_status where
  "synced_status =
     \<lparr>path = ''/home/sauron/unexusi/zeta'', name = ''zeta'', dirty = False,
      ahead = 0, behind = 0, repo = example_repo\<lparr>is_dirty := Inr False\<rparr>, branch = ''main''\<rparr>"

text \<open>A clean repository that has no remote at all.\<close>

definition local_only_status :: repo_status where
  "local_only_status =
     \<lparr>path = ''/home/sauron/unexusi/zeta'', name = ''zeta'', dirty = False,
      ahead = 0, behind = 0,
      repo = example_repo\<lparr>is_dirty := Inr False, remotes := []\<rparr>, branch = ''main''\<rparr>"



text \<open>A dirty repository whose commit is rejected.\<close>

definition rejected_status :: repo_status where
  "rejected_status =
     \<lparr>path = ''/home/sauron/unexusi/alpha'', name = ''alpha'', dirty = True,
      ahead = 0, behind = 1,
      repo = example_repo
        \<lparr>index_commit := (\<lambda>message. Some (Exn GitCommandError ''pre-commit hook failed''))\<rparr>,
      branch = ''main''\<rparr>"



text \<open>A repository on a detached HEAD whose fetch fails: no network.\<close>

definition offline_repo :: git_repo where
  "offline_repo =
     example_repo
       \<lparr>active_branch := Inl (Exn TypeError ''HEAD is a detached symbolic reference''),
        remotes := [example_origin\<lparr>fetch := Some (Exn GitCommandError ''could not resolve host'')\<rparr>]\<rparr>"

text \<open>A repository whose dirty check fails.\<close>

definition unreadable_repo :: git_repo where
  "unreadable_repo = example_repo\<lparr>is_dirty := Inl (Exn GitCommandError ''index file corrupt'')\<rparr>"

definition example_cfg :: config where
  "example_cfg = detect_environment ''/usr''"

text \<open>
  A root with a text file, a plain folder \<^verbatim>\<open>docs\<close>, two repositories \<^verbatim>\<open>alpha\<close> and
  \<^verbatim>\<open>zeta\<close>, and a folder \<^verbatim>\<open>beta\<close> whose \<^verbatim>\<open>.git\<close> directory is corrupt.
\<close>

definition example_world :: world where
  "example_world =
     \<lparr>path_exists = (\<lambda>p. p = ''/home/sauron/unexusi/''),
      path_isdir =
        (\<lambda>p. p \<in> set [''/home/sauron/unexusi/alpha'', ''/home/sauron/unexusi/alpha/.git'',
                       ''/home/sauron/unexusi/zeta'', ''/home/sauron/unexusi/zeta/.git'',
                       ''/home/sauron/unexusi/docs'',
                       ''/home/sauron/unexusi/beta'', ''/home/sauron/unexusi/beta/.git'']),
      listdir =
        (\<lambda>p. if p = ''/home/sauron/unexusi/''
             then Inr [''zeta'', ''todo.txt'', ''alpha'', ''docs'', ''beta'']
             else Inl ''No such file or directory''),
      open_repo =
        (\<lambda>p. if p = ''/home/sauron/unexusi/alpha'' then Inr example_repo
             else if p = ''/home/sauron/unexusi/zeta''
             then Inr (example_repo\<lparr>working_dir := ''/home/sauron/unexusi/zeta'',
                                    is_dirty := Inr False\<rparr>)
             else Inl (Exn InvalidGitRepositoryError p)),
      bashrc_path = ''/home/sauron/.bashrc'',
      script_path = ''/home/sauron/fleet_ops.py'',
      read_file = (\<lambda>p. Inl (Exn FileNotFoundError p)),
      append_file = (\<lambda>p content. None),
      write_file = (\<lambda>p content. None)\<rparr>"

definition missing_root_world :: world where
  "missing_root_world = example_world\<lparr>path_exists := (\<lambda>p. False)\<rparr>"

section \<open>Properties of the Sync Executor\<close>

lemma is_Exception_all: "is_Exception e"
  by (cases e) simp

lemma calls_append: "calls (a @ b) = calls a @ calls b"
  by (induction a rule: calls.induct) auto

lemma calls_map_Print: "calls (map (\<lambda>x. Print (f x)) xs) = []"
  by (induction xs) auto

lemma calls_show_file_details: "calls (fst (show_file_details r)) = []"
  by (simp add: show_file_details_def bind_def emit_def lift_def calls_append calls_map_Print
      split: sum.splits prod.splits)




lemma push_pull_ok:
  "push_pull d = (t, Inr u) \<Longrightarrow>
     calls t =
       (if behind d > 0 then [GitPull] else []) @ (if dirty d \<or> ahead d > 0 then [GitPush] else [])"
  by (auto simp: push_pull_def bind_def emit_def call_def ret_def lift_def calls_append
      split: sum.splits prod.splits option.splits if_splits)


lemma show_file_details_no_error_line: "\<not> list_ex is_sync_error (fst (show_file_details r))"
  by (auto simp: show_file_details_def bind_def emit_def lift_def is_sync_error_def list_ex_iff
      split: sum.splits prod.splits)


text \<open>The three ways a sync can end: the save step raises; the guarded block raises and
  the handler prints the error; both complete.\<close>

lemma sync_repo_cases:
  "sync_repo d msg =
     (case save_changes d msg of
        (t0, Inl e) \<Rightarrow> (Print (MsgProcessing (name d)) # t0, Inl e)
      | (t0, Inr u) \<Rightarrow>
          (case push_pull d of
             (t1, Inl e) \<Rightarrow>
               (Print (MsgProcessing (name d)) # t0 @ t1 @ [Print (MsgErrorSyncing e)], Inr ())
           | (t1, Inr v) \<Rightarrow> (Print (MsgProcessing (name d)) # t0 @ t1, Inr ())))"
  by (cases "save_changes d msg"; cases "push_pull d")
     (auto simp: sync_repo_def bind_def emit_def try_except_def is_Exception_all
       split: sum.splits prod.splits)

lemma sync_all_append:
  "sync_all (xs @ ys) =
     (case sync_all xs of
        (t, Inl e) \<Rightarrow> (t, Inl e)
      | (t, Inr u) \<Rightarrow> (t @ fst (sync_all ys), snd (sync_all ys)))"
proof (induction xs)
  case Nil
  then show ?case by (simp add: ret_def)
next
  case (Cons x xs)
  then show ?case
    by (cases "sync_repo x ''Auto-sync via Fleet Commander''"; cases "sync_all xs"; cases "sync_all ys")
       (auto simp: bind_def split: sum.splits prod.splits)
qed

lemmas run_simps =
  sync_repo_def save_changes_def push_pull_def show_file_details_def remotes_origin_def
  bind_def emit_def call_def ret_def lift_def try_except_def basename_def is_sync_error_def
  example_repo_def example_origin_def




text \<open>
  C2, as stated, fails. A clean repository that has no remote called \<^verbatim>\<open>origin\<close> has the
  status dirty = false, ahead = 0, behind = 0, and its sync does not report "already
  clean": the lookup of the remote is the first statement of the guarded block, it
  raises, and the handler reports a sync error.
\<close>

theorem clean_without_origin_counterexample:
  "\<not> dirty local_only_status \<and> ahead local_only_status = 0 \<and> behind local_only_status = 0 \<and>
   Print MsgAlreadyClean \<notin> set (fst (sync_repo local_only_status ''Auto-sync via Fleet Commander'')) \<and>
   list_ex is_sync_error (fst (sync_repo local_only_status ''Auto-sync via Fleet Commander''))"
  by (simp add: run_simps local_only_status_def)

text \<open>
  C2, amended. For a status with dirty = false, ahead = 0 and behind = 0, a sync makes no
  Git call at all (no stage, commit, pull or push) and never raises; it reports "already
  clean" when the repository has a remote called \<^verbatim>\<open>origin\<close>, and reports the failed
  lookup as a sync error when it has none.
\<close>

theorem sync_repo_clean:
  assumes "\<not> dirty d" and "ahead d = 0" and "behind d = 0"
  shows "calls (fst (sync_repo d msg)) = [] \<and>
         sync_repo d msg =
           (case remotes_origin (repo d) of
              Inr origin \<Rightarrow> ([Print (MsgProcessing (name d)), Print MsgAlreadyClean], Inr ())
            | Inl e \<Rightarrow> ([Print (MsgProcessing (name d)), Print (MsgErrorSyncing e)], Inr ()))"
  using assms
  by (cases "remotes_origin (repo d)")
     (simp_all add: sync_repo_def save_changes_def push_pull_def bind_def emit_def ret_def
        lift_def try_except_def is_Exception_all)

theorem sync_repo_clean_witness:
  "\<not> dirty synced_status \<and> ahead synced_status = 0 \<and> behind synced_status = 0 \<and>
   calls (fst (sync_repo synced_status ''wip'')) = [] \<and>
   sync_repo synced_status ''wip'' = ([Print (MsgProcessing ''zeta''), Print MsgAlreadyClean], Inr ())"
proof -
  have h: "\<not> dirty synced_status" "ahead synced_status = 0" "behind synced_status = 0"
    by (simp_all add: synced_status_def)
  have o: "remotes_origin (repo synced_status) = Inr example_origin"
    by (simp add: synced_status_def remotes_origin_def example_repo_def example_origin_def)
  have n: "name synced_status = ''zeta''" by (simp add: synced_status_def)
  from sync_repo_clean[OF h, of "''wip''"] show ?thesis using h by (simp add: o n)
qed



text \<open>
  C10. In a dirty repository, when the stage or the commit raises, \<open>sync_repo\<close> raises
  that same exception: no handler is around the save step, so no sync error is printed
  and neither pull nor push is called. In a batch the exception leaves the loop: the
  trace ends with the failing repository and the repositories after it are not
  processed.
\<close>

theorem commit_failure_propagates:
  assumes "dirty d" and "show_file_details (repo d) = (t0, Inr ())"
    and "git_add (repo d) = Some e \<or>
         (git_add (repo d) = None \<and> index_commit (repo d) msg = Some e)"
  shows "snd (sync_repo d msg) = Inl e \<and>
         \<not> list_ex is_sync_error (fst (sync_repo d msg)) \<and>
         GitPull \<notin> set (calls (fst (sync_repo d msg))) \<and>
         GitPush \<notin> set (calls (fst (sync_repo d msg))) \<and>
         (msg = ''Auto-sync via Fleet Commander'' \<and> sync_all before = (tb, Inr ()) \<longrightarrow>
            sync_all (before @ d # rest) = (tb @ fst (sync_repo d msg), Inl e))"
proof -
  have c0: "calls t0 = []" using calls_show_file_details[of "repo d"] assms(2) by simp
  have e0: "\<not> list_ex is_sync_error t0"
    using show_file_details_no_error_line[of "repo d"] assms(2) by simp
  obtain t where sv: "save_changes d msg = (t0 @ t, Inl e)"
    and t: "t = [Call GitAddAll] \<or> t = [Call GitAddAll, Call (GitCommit msg)]"
    using assms by (auto simp: save_changes_def bind_def call_def emit_def)
  have run: "sync_repo d msg = (Print (MsgProcessing (name d)) # t0 @ t, Inl e)"
    using sv by (simp add: sync_repo_cases)
  have "sync_all (before @ d # rest) = (tb @ fst (sync_repo d msg), Inl e)"
    if "msg = ''Auto-sync via Fleet Commander''" "sync_all before = (tb, Inr ())"
    using that run by (simp add: sync_all_append bind_def)
  then show ?thesis
    using run t c0 e0 by (auto simp: calls_append is_sync_error_def)
qed

theorem commit_failure_propagates_witness:
  "dirty rejected_status \<and>
   git_add (repo rejected_status) = None \<and>
   index_commit (repo rejected_status) ''Auto-sync via Fleet Commander''
     = Some (Exn GitCommandError ''pre-commit hook failed'') \<and>
   sync_all [synced_status] = ([Print (MsgProcessing ''zeta''), Print MsgAlreadyClean], Inr ()) \<and>
   snd (sync_repo rejected_status ''Auto-sync via Fleet Commander'')
     = Inl (Exn GitCommandError ''pre-commit hook failed'') \<and>
   sync_all ([synced_status] @ rejected_status # [alpha_status]) =
     ([Print (MsgProcessing ''zeta''), Print MsgAlreadyClean, Print (MsgProcessing ''alpha''),
       Print (MsgFileStatus ''alpha''), Print (MsgModified ''README.md''),
       Print (MsgNewFile ''notes.txt''), Print MsgBlank, Call GitAddAll,
       Call (GitCommit ''Auto-sync via Fleet Commander'')],
      Inl (Exn GitCommandError ''pre-commit hook failed''))"
proof -
  have d: "dirty rejected_status" by (simp add: rejected_status_def)
  have sh: "show_file_details (repo rejected_status) =
              ([Print (MsgFileStatus ''alpha''), Print (MsgModified ''README.md''),
                Print (MsgNewFile ''notes.txt''), Print MsgBlank], Inr ())"
    by (simp add: rejected_status_def run_simps)
  have a: "git_add (repo rejected_status) = None"
    by (simp add: rejected_status_def example_repo_def)
  have c: "index_commit (repo rejected_status) ''Auto-sync via Fleet Commander''
             = Some (Exn GitCommandError ''pre-commit hook failed'')"
    by (simp add: rejected_status_def)
  have b: "sync_all [synced_status] = ([Print (MsgProcessing ''zeta''), Print MsgAlreadyClean], Inr ())"
    by (simp add: run_simps synced_status_def)
  have run: "fst (sync_repo rejected_status ''Auto-sync via Fleet Commander'') =
      [Print (MsgProcessing ''alpha''),
       Print (MsgFileStatus ''alpha''), Print (MsgModified ''README.md''),
       Print (MsgNewFile ''notes.txt''), Print MsgBlank, Call GitAddAll,
       Call (GitCommit ''Auto-sync via Fleet Commander'')]"
    by (simp add: run_simps rejected_status_def)
  from commit_failure_propagates[OF d sh, of "Exn GitCommandError ''pre-commit hook failed''"
      "''Auto-sync via Fleet Commander''" "[synced_status]"
      "[Print (MsgProcessing ''zeta''), Print MsgAlreadyClean]" "[alpha_status]"] a c b
  have "snd (sync_repo rejected_status ''Auto-sync via Fleet Commander'')
          = Inl (Exn GitCommandError ''pre-commit hook failed'') \<and>
        sync_all ([synced_status] @ rejected_status # [alpha_status]) =
          ([Print (MsgProcessing ''zeta''), Print MsgAlreadyClean]
           @ fst (sync_repo rejected_status ''Auto-sync via Fleet Commander''),
           Inl (Exn GitCommandError ''pre-commit hook failed''))"
    by (simp del: sync_all.simps)
  then show ?thesis using d a c b by (simp add: run del: sync_all.simps)
qed

section \<open>Properties of the Status Inspector\<close>

lemma resolve_branch_eq:
  "resolve_branch r st =
     ([], Inr (st\<lparr>branch := (case active_branch r of Inr b \<Rightarrow> b | Inl e \<Rightarrow> ''DETACHED'')\<rparr>))"
  by (simp add: resolve_branch_def try_except_def bind_def lift_def ret_def is_Exception_all
      split: sum.splits)

lemma check_sync_fields:
  "check_sync r st = (t, st') \<Longrightarrow>
     path st' = path st \<and> name st' = name st \<and> dirty st' = dirty st \<and>
     repo st' = repo st \<and> branch st' = branch st \<and>
     (ahead st = 0 \<longrightarrow> 0 \<le> ahead st') \<and> (behind st = 0 \<longrightarrow> 0 \<le> behind st') \<and>
     (t = [] \<or> t = [Call GitFetch])"
  by (auto simp: check_sync_def split: sum.splits option.splits)

text \<open>The inspection, with its handlers resolved.\<close>

lemma get_git_status_eq:
  "get_git_status w p =
     (case open_repo w p of
        Inl e \<Rightarrow> ([], Inr None)
      | Inr r \<Rightarrow>
          (case is_dirty r of
             Inl e \<Rightarrow> ([], Inr None)
           | Inr d \<Rightarrow>
               (case check_sync r
                       \<lparr>path = p, name = basename p, dirty = d, ahead = 0, behind = 0, repo = r,
                        branch = (case active_branch r of Inr b \<Rightarrow> b | Inl e \<Rightarrow> ''DETACHED'')\<rparr> of
                  (t, st) \<Rightarrow> (t, Inr (Some st)))))"
  by (auto simp: get_git_status_def try_except_def bind_def lift_def ret_def is_Exception_all
        resolve_branch_eq split: sum.splits prod.splits)

lemma get_git_status_never_raises: "snd (get_git_status w p) \<noteq> Inl e"
  by (simp add: get_git_status_eq split: sum.splits prod.splits)

lemma get_git_status_Some:
  assumes "get_git_status w p = (t, Inr (Some st))"
  shows "path st = p \<and> name st = basename p \<and> 0 \<le> ahead st \<and> 0 \<le> behind st"
  using assms
  by (auto simp: get_git_status_eq split: sum.splits prod.splits dest!: check_sync_fields)

lemma check_sync_unchanged:
  assumes "remotes_origin r = Inl e
           \<or> (\<exists>origin e. remotes_origin r = Inr origin \<and> fetch origin = Some e)
           \<or> tracking_branch r = Inr None"
    and "check_sync r st = (t, st')"
  shows "st' = st"
  using assms by (auto simp: check_sync_def split: sum.splits option.splits)


lemmas status_simps =
  get_git_status_eq check_sync_def remotes_origin_def basename_def
  example_repo_def example_origin_def

text \<open>
  C4, as stated, fails. Where the repository opens and its branch is readable but the
  dirty check raises, the inspection returns no record: the dirty check is under the outer
  handler only, which gives up on the whole inspection.
\<close>

theorem dirty_check_failure_counterexample:
  "open_repo (example_world\<lparr>open_repo := (\<lambda>p. Inr unreadable_repo)\<rparr>)
     ''/home/sauron/unexusi/alpha'' = Inr unreadable_repo \<and>
   active_branch unreadable_repo = Inr ''main'' \<and>
   get_git_status (example_world\<lparr>open_repo := (\<lambda>p. Inr unreadable_repo)\<rparr>)
     ''/home/sauron/unexusi/alpha'' = ([], Inr None)"
  by (simp add: get_git_status_eq unreadable_repo_def example_repo_def)

text \<open>
  C4, amended. For every path whose repository opens: when the dirty check raises, the
  inspection returns no record. When it succeeds, the inspection returns a record
  whatever else fails: path, name and dirty flag are filled in and the branch is the
  branch name, or \<^verbatim>\<open>DETACHED\<close> when reading it raises. The fetch is attempted exactly when
  the remote \<^verbatim>\<open>origin\<close> is found. Ahead and behind are both zero when the sync check
  fails before the first count (no \<^verbatim>\<open>origin\<close>, fetch raises, HEAD detached, tracking
  branch unreadable or absent, first count raises); behind is the first count and ahead
  is zero when only the second count raises; both are the counts otherwise.
\<close>

theorem status_fault_tolerance:
  assumes "open_repo w p = Inr r"
  shows "(is_dirty r = Inl e \<longrightarrow> get_git_status w p = ([], Inr None)) \<and>
         (is_dirty r = Inr d \<longrightarrow>
            (\<exists>t st. get_git_status w p = (t, Inr (Some st)) \<and>
               path st = p \<and> name st = basename p \<and> repo st = r \<and> dirty st = d \<and>
               branch st = (case active_branch r of Inr b \<Rightarrow> b | Inl _ \<Rightarrow> ''DETACHED'') \<and>
               t = (case remotes_origin r of Inl _ \<Rightarrow> [] | Inr _ \<Rightarrow> [Call GitFetch]) \<and>
               (remotes_origin r = Inl e1 \<or>
                (remotes_origin r = Inr origin \<and> fetch origin = Some e1) \<or>
                active_branch r = Inl e1 \<or>
                tracking_branch r = Inl e1 \<or>
                tracking_branch r = Inr None \<or>
                (active_branch r = Inr local_branch \<and> tracking_branch r = Inr (Some remote_branch) \<and>
                 iter_commits r (local_branch @ ''..'' @ remote_branch) = Inl e1)
                  \<longrightarrow> ahead st = 0 \<and> behind st = 0) \<and>
               (remotes_origin r = Inr origin \<and> fetch origin = None \<and>
                active_branch r = Inr local_branch \<and> tracking_branch r = Inr (Some remote_branch) \<and>
                iter_commits r (local_branch @ ''..'' @ remote_branch) = Inr n
                  \<longrightarrow> behind st = int n \<and>
                      (iter_commits r (remote_branch @ ''..'' @ local_branch) = Inl e2
                         \<longrightarrow> ahead st = 0) \<and>
                      (iter_commits r (remote_branch @ ''..'' @ local_branch) = Inr m
                         \<longrightarrow> ahead st = int m))))"
proof (intro conjI impI)
  assume "is_dirty r = Inl e"
  then show "get_git_status w p = ([], Inr None)"
    using assms by (simp add: get_git_status_eq)
next
  assume d: "is_dirty r = Inr d"
  let ?st0 = "\<lparr>path = p, name = basename p, dirty = d, ahead = 0, behind = 0, repo = r,
               branch = (case active_branch r of Inr b \<Rightarrow> b | Inl _ \<Rightarrow> ''DETACHED'')\<rparr>"
  obtain t st where cs: "check_sync r ?st0 = (t, st)" by (cases "check_sync r ?st0")
  have g: "get_git_status w p = (t, Inr (Some st))"
    using assms d cs by (simp add: get_git_status_eq)
  have fields: "path st = p \<and> name st = basename p \<and> repo st = r \<and> dirty st = d \<and>
        branch st = (case active_branch r of Inr b \<Rightarrow> b | Inl _ \<Rightarrow> ''DETACHED'')"
    using check_sync_fields[OF cs] by simp
  have tr: "t = (case remotes_origin r of Inl _ \<Rightarrow> [] | Inr _ \<Rightarrow> [Call GitFetch])"
    using cs by (auto simp: check_sync_def split: sum.splits option.splits)
  have zero: "ahead st = 0 \<and> behind st = 0"
    if "remotes_origin r = Inl e1 \<or>
        (remotes_origin r = Inr origin \<and> fetch origin = Some e1) \<or>
        active_branch r = Inl e1 \<or>
        tracking_branch r = Inl e1 \<or>
        tracking_branch r = Inr None \<or>
        (active_branch r = Inr local_branch \<and> tracking_branch r = Inr (Some remote_branch) \<and>
         iter_commits r (local_branch @ ''..'' @ remote_branch) = Inl e1)"
    using cs that by (auto simp: check_sync_def split: sum.splits option.splits)
  have counts: "behind st = int n \<and>
                (iter_commits r (remote_branch @ ''..'' @ local_branch) = Inl e2 \<longrightarrow> ahead st = 0) \<and>
                (iter_commits r (remote_branch @ ''..'' @ local_branch) = Inr m \<longrightarrow> ahead st = int m)"
    if "remotes_origin r = Inr origin \<and> fetch origin = None \<and>
        active_branch r = Inr local_branch \<and> tracking_branch r = Inr (Some remote_branch) \<and>
        iter_commits r (local_branch @ ''..'' @ remote_branch) = Inr n"
    using cs that by (auto simp: check_sync_def split: sum.splits option.splits)
  show "\<exists>t st. get_git_status w p = (t, Inr (Some st)) \<and>
               path st = p \<and> name st = basename p \<and> repo st = r \<and> dirty st = d \<and>
               branch st = (case active_branch r of Inr b \<Rightarrow> b | Inl _ \<Rightarrow> ''DETACHED'') \<and>
               t = (case remotes_origin r of Inl _ \<Rightarrow> [] | Inr _ \<Rightarrow> [Call GitFetch]) \<and>
               (remotes_origin r = Inl e1 \<or>
                (remotes_origin r = Inr origin \<and> fetch origin = Some e1) \<or>
                active_branch r = Inl e1 \<or>
                tracking_branch r = Inl e1 \<or>
                tracking_branch r = Inr None \<or>
                (active_branch r = Inr local_branch \<and> tracking_branch r = Inr (Some remote_branch) \<and>
                 iter_commits r (local_branch @ ''..'' @ remote_branch) = Inl e1)
                  \<longrightarrow> ahead st = 0 \<and> behind st = 0) \<and>
               (remotes_origin r = Inr origin \<and> fetch origin = None \<and>
                active_branch r = Inr local_branch \<and> tracking_branch r = Inr (Some remote_branch) \<and>
                iter_commits r (local_branch @ ''..'' @ remote_branch) = Inr n
                  \<longrightarrow> behind st = int n \<and>
                      (iter_commits r (remote_branch @ ''..'' @ local_branch) = Inl e2
                         \<longrightarrow> ahead st = 0) \<and>
                      (iter_commits r (remote_branch @ ''..'' @ local_branch) = Inr m
                         \<longrightarrow> ahead st = int m))"
    using g fields tr zero counts by blast
qed

theorem status_fault_tolerance_witness:
  "open_repo (example_world\<lparr>open_repo := (\<lambda>p. Inr offline_repo)\<rparr>) ''/home/sauron/unexusi/alpha''
     = Inr offline_repo \<and>
   is_dirty offline_repo = Inr True \<and>
   active_branch offline_repo = Inl (Exn TypeError ''HEAD is a detached symbolic reference'') \<and>
   get_git_status (example_world\<lparr>open_repo := (\<lambda>p. Inr offline_repo)\<rparr>)
       ''/home/sauron/unexusi/alpha'' =
     ([Call GitFetch],
      Inr (Some \<lparr>path = ''/home/sauron/unexusi/alpha'', name = ''alpha'', dirty = True,
                 ahead = 0, behind = 0, repo = offline_repo, branch = ''DETACHED''\<rparr>)) \<and>
   open_repo example_world ''/home/sauron/unexusi/alpha'' = Inr example_repo \<and>
   is_dirty example_repo = Inr True \<and>
   remotes_origin example_repo = Inr example_origin \<and> fetch example_origin = None \<and>
   active_branch example_repo = Inr ''main'' \<and>
   tracking_branch example_repo = Inr (Some ''origin/main'') \<and>
   iter_commits example_repo (''main'' @ ''..'' @ ''origin/main'') = Inr 1 \<and>
   iter_commits example_repo (''origin/main'' @ ''..'' @ ''main'') = Inr 0 \<and>
   get_git_status example_world ''/home/sauron/unexusi/alpha'' =
     ([Call GitFetch],
      Inr (Some \<lparr>path = ''/home/sauron/unexusi/alpha'', name = ''alpha'', dirty = True,
                 ahead = 0, behind = 1, repo = example_repo, branch = ''main''\<rparr>))"
proof -
  let ?w = "example_world\<lparr>open_repo := (\<lambda>p. Inr offline_repo)\<rparr>"
  let ?p = "''/home/sauron/unexusi/alpha''"
  let ?e = "Exn TypeError ''HEAD is a detached symbolic reference''"
  have o: "open_repo ?w ?p = Inr offline_repo" by simp
  have d: "is_dirty offline_repo = Inr True" by (simp add: offline_repo_def example_repo_def)
  have b: "active_branch offline_repo = Inl ?e" by (simp add: offline_repo_def)
  have og: "remotes_origin offline_repo =
      Inr (example_origin\<lparr>fetch := Some (Exn GitCommandError ''could not resolve host'')\<rparr>)"
    by (simp add: offline_repo_def remotes_origin_def example_origin_def)
  have n: "basename ?p = ''alpha''" by (simp add: basename_def)
  from status_fault_tolerance[OF o, of ?e True ?e example_origin "''main''" "''origin/main''"
      0 ?e 0] d b
  obtain t st where r1: "get_git_status ?w ?p = (t, Inr (Some st))"
    "path st = ?p" "name st = basename ?p" "repo st = offline_repo" "dirty st = True"
    "branch st = (case active_branch offline_repo of Inr b \<Rightarrow> b | Inl _ \<Rightarrow> ''DETACHED'')"
    "t = (case remotes_origin offline_repo of Inl _ \<Rightarrow> [] | Inr _ \<Rightarrow> [Call GitFetch])"
    "ahead st = 0" "behind st = 0"
    by blast
  have st1: "st = \<lparr>path = ?p, name = ''alpha'', dirty = True,
                 ahead = 0, behind = 0, repo = offline_repo, branch = ''DETACHED''\<rparr>"
    using r1 by (cases st) (simp add: n b)
  have one: "get_git_status ?w ?p =
     ([Call GitFetch],
      Inr (Some \<lparr>path = ?p, name = ''alpha'', dirty = True,
                 ahead = 0, behind = 0, repo = offline_repo, branch = ''DETACHED''\<rparr>))"
    using r1(1,7) st1 og by simp
  have o2: "open_repo example_world ?p = Inr example_repo" by (simp add: example_world_def)
  have f2: "is_dirty example_repo = Inr True"
    "remotes_origin example_repo = Inr example_origin" "fetch example_origin = None"
    "active_branch example_repo = Inr ''main''"
    "tracking_branch example_repo = Inr (Some ''origin/main'')"
    "iter_commits example_repo (''main'' @ ''..'' @ ''origin/main'') = Inr 1"
    "iter_commits example_repo (''origin/main'' @ ''..'' @ ''main'') = Inr 0"
    by (simp_all add: example_repo_def remotes_origin_def example_origin_def)
  from status_fault_tolerance[OF o2, of ?e True ?e example_origin
      "''main''" "''origin/main''" 1 ?e 0] f2
  obtain t' st' where r2: "get_git_status example_world ?p = (t', Inr (Some st'))"
    "path st' = ?p" "name st' = basename ?p" "repo st' = example_repo" "dirty st' = True"
    "branch st' = (case active_branch example_repo of Inr b \<Rightarrow> b | Inl _ \<Rightarrow> ''DETACHED'')"
    "t' = (case remotes_origin example_repo of Inl _ \<Rightarrow> [] | Inr _ \<Rightarrow> [Call GitFetch])"
    "behind st' = int 1" "ahead st' = int 0"
    by blast
  have st2: "st' = \<lparr>path = ?p, name = ''alpha'', dirty = True,
                 ahead = 0, behind = 1, repo = example_repo, branch = ''main''\<rparr>"
    using r2 by (cases st') (simp add: n f2)
  have two: "get_git_status example_world ?p =
     ([Call GitFetch],
      Inr (Some \<lparr>path = ?p, name = ''alpha'', dirty = True,
                 ahead = 0, behind = 1, repo = example_repo, branch = ''main''\<rparr>))"
    using r2(1,7) st2 f2 by simp
  show ?thesis using o d b one o2 f2 two by blast
qed

text \<open>
  C6. When the fetch raises, or when the current branch has no tracking branch, the
  inspection does not raise, and the record it returns (it returns one whenever the dirty
  check succeeds) has ahead = 0 and behind = 0: for a clean repository the dashboard
  line is the one of a synced repository.
\<close>

theorem fetch_failure_reports_zero:
  assumes "open_repo w p = Inr r"
    and "(\<exists>origin e. remotes_origin r = Inr origin \<and> fetch origin = Some e)
         \<or> tracking_branch r = Inr None"
  shows "\<exists>t res. get_git_status w p = (t, Inr res) \<and>
           (\<forall>d. is_dirty r = Inr d \<longrightarrow> res \<noteq> None) \<and>
           (\<forall>st. res = Some st \<longrightarrow>
              ahead st = 0 \<and> behind st = 0 \<and>
              (\<not> dirty st \<longrightarrow> status_line n st = MsgRepoLine n Synced (name st) (branch st)))"
proof (cases "is_dirty r")
  case (Inl e)
  then show ?thesis using assms(1) by (simp add: get_git_status_eq)
next
  case (Inr d)
  let ?st0 = "\<lparr>path = p, name = basename p, dirty = d, ahead = 0, behind = 0, repo = r,
               branch = (case active_branch r of Inr b \<Rightarrow> b | Inl e \<Rightarrow> ''DETACHED'')\<rparr>"
  obtain t st where cs: "check_sync r ?st0 = (t, st)" by (cases "check_sync r ?st0")
  have "st = ?st0" using check_sync_unchanged[OF _ cs] assms(2) by blast
  moreover have "get_git_status w p = (t, Inr (Some st))"
    using assms(1) Inr cs by (simp add: get_git_status_eq)
  ultimately show ?thesis by (simp add: status_line_def)
qed

theorem fetch_failure_reports_zero_witness:
  "open_repo (example_world\<lparr>open_repo := (\<lambda>p. Inr offline_repo)\<rparr>) ''/home/sauron/unexusi/alpha''
     = Inr offline_repo \<and>
   (\<exists>origin. remotes_origin offline_repo = Inr origin \<and>
      fetch origin = Some (Exn GitCommandError ''could not resolve host'')) \<and>
   (\<exists>t st. get_git_status (example_world\<lparr>open_repo := (\<lambda>p. Inr offline_repo)\<rparr>)
              ''/home/sauron/unexusi/alpha'' = (t, Inr (Some st)) \<and>
            ahead st = 0 \<and> behind st = 0)"
proof -
  let ?w = "example_world\<lparr>open_repo := (\<lambda>p. Inr offline_repo)\<rparr>"
  have o: "open_repo ?w ''/home/sauron/unexusi/alpha'' = Inr offline_repo" by simp
  have f: "\<exists>origin. remotes_origin offline_repo = Inr origin \<and>
      fetch origin = Some (Exn GitCommandError ''could not resolve host'')"
    by (simp add: offline_repo_def remotes_origin_def example_origin_def)
  then have h: "(\<exists>origin e. remotes_origin offline_repo = Inr origin \<and> fetch origin = Some e)
         \<or> tracking_branch offline_repo = Inr None" by blast
  have d: "is_dirty offline_repo = Inr True" by (simp add: offline_repo_def example_repo_def)
  from fetch_failure_reports_zero[OF o h, of 1] d
  have "\<exists>t st. get_git_status ?w ''/home/sauron/unexusi/alpha'' = (t, Inr (Some st)) \<and>
            ahead st = 0 \<and> behind st = 0"
    by (metis option.exhaust)
  then show ?thesis using o f by blast
qed



section \<open>Properties of the scan and of the dashboard entry\<close>

lemma scan_folders_result:
  "\<exists>t new. scan_folders cfg w fs acc = (t, acc @ new, None) \<and>
     map path new = map (path_join (ROOT_DIR cfg)) (filter (qualifies cfg w) fs) \<and>
     (\<forall>st \<in> set new. snd (get_git_status w (path st)) = Inr (Some st))"
proof (induction fs arbitrary: acc)
  case Nil
  then show ?case by simp
next
  case (Cons f fs)
  let ?p = "path_join (ROOT_DIR cfg) f"
  show ?case
  proof (cases "path_isdir w ?p \<and> path_isdir w (path_join ?p ''.git'')")
    case False
    then have "\<not> qualifies cfg w f" by (auto simp: qualifies_def)
    moreover have "scan_folders cfg w (f # fs) acc = scan_folders cfg w fs acc"
      using False by auto
    ultimately show ?thesis using Cons.IH[of acc] by simp
  next
    case True
    obtain t res where g: "get_git_status w ?p = (t, res)" by (cases "get_git_status w ?p")
    have "res \<noteq> Inl e" for e using get_git_status_never_raises[of w ?p e] g by simp
    then obtain opt where res: "res = Inr opt" by (cases res) auto
    show ?thesis
    proof (cases opt)
      case None
      then have "\<not> qualifies cfg w f" using g res by (simp add: qualifies_def)
      moreover obtain t' new where
        "scan_folders cfg w fs acc = (t', acc @ new, None)"
        "map path new = map (path_join (ROOT_DIR cfg)) (filter (qualifies cfg w) fs)"
        "\<forall>st \<in> set new. snd (get_git_status w (path st)) = Inr (Some st)"
        using Cons.IH[of acc] by blast
      ultimately show ?thesis using True g res None by simp
    next
      case (Some st)
      then have q: "qualifies cfg w f" using True g res by (simp add: qualifies_def)
      have pst: "path st = ?p" using get_git_status_Some[of w ?p t st] g res Some by simp
      obtain t' new where IH:
        "scan_folders cfg w fs (acc @ [st]) = (t', (acc @ [st]) @ new, None)"
        "map path new = map (path_join (ROOT_DIR cfg)) (filter (qualifies cfg w) fs)"
        "\<forall>st \<in> set new. snd (get_git_status w (path st)) = Inr (Some st)"
        using Cons.IH[of "acc @ [st]"] by blast
      have "scan_folders cfg w (f # fs) acc =
              (t @ [Print (status_line (length (acc @ [st])) st)] @ t', acc @ (st # new), None)"
        using True g res Some IH(1) by simp
      moreover have "map path (st # new) =
                       map (path_join (ROOT_DIR cfg)) (filter (qualifies cfg w) (f # fs))"
        using q pst IH(2) by simp
      moreover have "\<forall>s \<in> set (st # new). snd (get_git_status w (path s)) = Inr (Some s)"
        using IH(3) pst g res Some by simp
      ultimately show ?thesis by blast
    qed
  qed
qed

lemma scan_repos_result:
  "\<exists>t found. scan_repos cfg w = (t, Inr found) \<and>
     map path found =
       map (path_join (ROOT_DIR cfg))
         (filter (qualifies cfg w)
            (if path_exists w (ROOT_DIR cfg)
             then (case listdir w (ROOT_DIR cfg) of Inl m \<Rightarrow> [] | Inr fs \<Rightarrow> sort fs) else [])) \<and>
     (\<forall>st \<in> set found. snd (get_git_status w (path st)) = Inr (Some st))"
proof (cases "path_exists w (ROOT_DIR cfg)")
  case False
  then show ?thesis by (simp add: scan_repos_def)
next
  case True
  show ?thesis
  proof (cases "listdir w (ROOT_DIR cfg)")
    case (Inl m)
    then show ?thesis using True by (simp add: scan_repos_def)
  next
    case (Inr fs)
    obtain t new where
      "scan_folders cfg w (sort fs) [] = (t, [] @ new, None)"
      "map path new = map (path_join (ROOT_DIR cfg)) (filter (qualifies cfg w) (sort fs))"
      "\<forall>st \<in> set new. snd (get_git_status w (path st)) = Inr (Some st)"
      using scan_folders_result[of cfg w "sort fs" "[]"] by blast
    then show ?thesis using True Inr by (simp add: scan_repos_def)
  qed
qed

lemma example_root: "ROOT_DIR example_cfg = ''/home/sauron/unexusi/''"
  by (simp add: example_cfg_def detect_environment_def)

lemma example_device: "DEVICE_NAME example_cfg = ''Laptop (Base)''"
  by (simp add: example_cfg_def detect_environment_def)

lemma example_listing_sorted:
  "sort [''zeta'', ''todo.txt'', ''alpha'', ''docs'', ''beta'']
     = [''alpha'', ''beta'', ''docs'', ''todo.txt'', ''zeta'']"
  by code_simp

lemma example_qualifies:
  "filter (qualifies example_cfg example_world) [''alpha'', ''beta'', ''docs'', ''todo.txt'', ''zeta'']
     = [''alpha'', ''zeta'']"
  by (simp add: qualifies_def example_root example_world_def path_join_def status_simps)

text \<open>
  C7, as stated, fails on "exactly". The folder \<^verbatim>\<open>beta\<close> of the example root is a
  directory and contains a \<^verbatim>\<open>.git\<close> directory, yet the scan lists only \<^verbatim>\<open>alpha\<close> and
  \<^verbatim>\<open>zeta\<close>: the repository object of \<^verbatim>\<open>beta\<close> cannot be built, its inspection returns
  no record, and the scan leaves it out.
\<close>

theorem scan_excludes_git_folder_counterexample:
  "listdir example_world (ROOT_DIR example_cfg)
     = Inr [''zeta'', ''todo.txt'', ''alpha'', ''docs'', ''beta''] \<and>
   path_isdir example_world (path_join (ROOT_DIR example_cfg) ''beta'') \<and>
   path_isdir example_world (path_join (path_join (ROOT_DIR example_cfg) ''beta'') ''.git'') \<and>
   map_sum id (map path) (snd (scan_repos example_cfg example_world))
     = Inr [''/home/sauron/unexusi/alpha'', ''/home/sauron/unexusi/zeta'']"
proof -
  obtain t found where s: "scan_repos example_cfg example_world = (t, Inr found)"
    and m: "map path found =
       map (path_join (ROOT_DIR example_cfg))
         (filter (qualifies example_cfg example_world)
            (if path_exists example_world (ROOT_DIR example_cfg)
             then (case listdir example_world (ROOT_DIR example_cfg) of
                     Inl m \<Rightarrow> [] | Inr fs \<Rightarrow> sort fs) else []))"
    using scan_repos_result[of example_cfg example_world] by blast
  have l: "listdir example_world (ROOT_DIR example_cfg)
             = Inr [''zeta'', ''todo.txt'', ''alpha'', ''docs'', ''beta'']"
    and x: "path_exists example_world (ROOT_DIR example_cfg)"
    by (simp_all add: example_root example_world_def)
  have "map path found = [''/home/sauron/unexusi/alpha'', ''/home/sauron/unexusi/zeta'']"
    unfolding m
    by (simp only: l x if_True sum.case example_listing_sorted example_qualifies)
       (simp add: example_root path_join_def)
  moreover have "path_isdir example_world (path_join (ROOT_DIR example_cfg) ''beta'') \<and>
    path_isdir example_world (path_join (path_join (ROOT_DIR example_cfg) ''beta'') ''.git'')"
    by (simp add: example_root path_join_def example_world_def)
  ultimately show ?thesis using s l by simp
qed

text \<open>
  C7, amended. When the root exists and can be listed, the scan lists exactly the
  entries of the root (its immediate children only) that are directories, contain a
  \<^verbatim>\<open>.git\<close> directory and whose inspection returns a record; the list is in the
  ascending order of the folder names (the order of Python's \<^verbatim>\<open>sorted\<close> on strings), and
  each path is the root joined with the folder name.
\<close>

theorem scan_lists_inspected_repositories_sorted:
  assumes "path_exists w (ROOT_DIR cfg)" and "listdir w (ROOT_DIR cfg) = Inr folder_list"
  shows "\<exists>t found names. scan_repos cfg w = (t, Inr found) \<and>
           map path found = map (path_join (ROOT_DIR cfg)) names \<and>
           names = filter (qualifies cfg w) (sort folder_list) \<and>
           sorted names \<and>
           set names = {f \<in> set folder_list. qualifies cfg w f}"
proof -
  obtain t found where
    "scan_repos cfg w = (t, Inr found)"
    "map path found = map (path_join (ROOT_DIR cfg)) (filter (qualifies cfg w) (sort folder_list))"
    using scan_repos_result[of cfg w] assms by auto
  moreover have "sorted (filter (qualifies cfg w) (sort folder_list))"
    by (rule sorted_wrt_filter) simp
  ultimately show ?thesis by auto
qed

theorem scan_lists_inspected_repositories_sorted_witness:
  "path_exists example_world (ROOT_DIR example_cfg) \<and>
   listdir example_world (ROOT_DIR example_cfg)
     = Inr [''zeta'', ''todo.txt'', ''alpha'', ''docs'', ''beta''] \<and>
   (\<exists>t found. scan_repos example_cfg example_world = (t, Inr found) \<and>
      map path found = map (path_join (ROOT_DIR example_cfg)) [''alpha'', ''zeta''] \<and>
      sorted [''alpha'', ''zeta''])"
proof -
  have x: "path_exists example_world (ROOT_DIR example_cfg)"
    and l: "listdir example_world (ROOT_DIR example_cfg)
             = Inr [''zeta'', ''todo.txt'', ''alpha'', ''docs'', ''beta'']"
    by (simp_all add: example_root example_world_def)
  have n: "filter (qualifies example_cfg example_world)
             (sort [''zeta'', ''todo.txt'', ''alpha'', ''docs'', ''beta'']) = [''alpha'', ''zeta'']"
    by (simp only: example_listing_sorted example_qualifies)
  from scan_lists_inspected_repositories_sorted[OF x l]
  have "\<exists>t found. scan_repos example_cfg example_world = (t, Inr found) \<and>
      map path found = map (path_join (ROOT_DIR example_cfg)) [''alpha'', ''zeta''] \<and>
      sorted [''alpha'', ''zeta'']"
    unfolding n by blast
  then show ?thesis using x l by blast
qed

text \<open>
  C8. For a path at which no repository object can be built, the inspection returns
  no record, without raising and without a Git call; the scan never raises, and no
  record of its list has that path.
\<close>

theorem invalid_repository_excluded:
  assumes "open_repo w p = Inl e"
  shows "get_git_status w p = ([], Inr None) \<and>
         (\<exists>t found. scan_repos cfg w = (t, Inr found) \<and> p \<notin> set (map path found))"
proof -
  have none: "get_git_status w p = ([], Inr None)"
    using assms by (simp add: get_git_status_eq)
  obtain t found where s: "scan_repos cfg w = (t, Inr found)"
    and all: "\<forall>st \<in> set found. snd (get_git_status w (path st)) = Inr (Some st)"
    using scan_repos_result[of cfg w] by blast
  have "p \<notin> set (map path found)"
  proof
    assume "p \<in> set (map path found)"
    then obtain st where "st \<in> set found" "path st = p" by auto
    then have "snd (get_git_status w p) = Inr (Some st)" using all by auto
    then show False using none by simp
  qed
  then show ?thesis using none s by blast
qed

theorem invalid_repository_excluded_witness:
  "open_repo example_world ''/home/sauron/unexusi/beta''
     = Inl (Exn InvalidGitRepositoryError ''/home/sauron/unexusi/beta'') \<and>
   path_isdir example_world ''/home/sauron/unexusi/beta/.git'' \<and>
   get_git_status example_world ''/home/sauron/unexusi/beta'' = ([], Inr None) \<and>
   (\<exists>t found. scan_repos example_cfg example_world = (t, Inr found) \<and>
      ''/home/sauron/unexusi/beta'' \<notin> set (map path found))"
proof -
  have o: "open_repo example_world ''/home/sauron/unexusi/beta''
     = Inl (Exn InvalidGitRepositoryError ''/home/sauron/unexusi/beta'')"
    and g: "path_isdir example_world ''/home/sauron/unexusi/beta/.git''"
    by (simp_all add: example_world_def)
  from invalid_repository_excluded[OF o, of example_cfg] show ?thesis using o g by blast
qed

text \<open>
  C5. When the root directory does not exist at start: the entry check prints the
  warning (with the two hints on the mobile device) and returns false, it does not raise;
  the dashboard then shows the exit prompt and returns, so no pass of the command loop
  runs: nothing is scanned and no command is read. A scan that finds the root missing
  yields the empty list with the "no repositories" line and does not raise either.
\<close>

theorem missing_root_reported:
  assumes "\<not> path_exists (worlds 0) (ROOT_DIR cfg)"
  shows "check_permissions cfg (worlds 0) =
           (Print (MsgWarnNoDirectory (ROOT_DIR cfg)) # Print (MsgCurrentMode (DEVICE_NAME cfg)) #
            (if str_contains ''Mobile'' (DEVICE_NAME cfg)
             then [Print MsgCheckFolder, Print MsgRunSetupStorage] else []), Inr False) \<and>
         main_dashboard cfg worlds inputs =
           (fst (check_permissions cfg (worlds 0)) @ [Input PromptExit],
            if inputs = [] then Inl (Exn EOFError ''EOF when reading a line'') else Inr ()) \<and>
         Clear \<notin> set (fst (main_dashboard cfg worlds inputs)) \<and>
         Input PromptCommand \<notin> set (fst (main_dashboard cfg worlds inputs)) \<and>
         (\<not> path_exists w (ROOT_DIR cfg) \<longrightarrow>
            scan_repos cfg w = ([Print (MsgNoRepositories (ROOT_DIR cfg))], Inr []))"
proof -
  have cp: "check_permissions cfg (worlds 0) =
           (Print (MsgWarnNoDirectory (ROOT_DIR cfg)) # Print (MsgCurrentMode (DEVICE_NAME cfg)) #
            (if str_contains ''Mobile'' (DEVICE_NAME cfg)
             then [Print MsgCheckFolder, Print MsgRunSetupStorage] else []), Inr False)"
    using assms by (simp add: check_permissions_def bind_def emit_def ret_def)
  have md: "main_dashboard cfg worlds inputs =
           (fst (check_permissions cfg (worlds 0)) @ [Input PromptExit],
            if inputs = [] then Inl (Exn EOFError ''EOF when reading a line'') else Inr ())"
    unfolding main_dashboard_def cp
    by (cases inputs) (simp_all add: bind_def py_input_def ret_def)
  have sc: "scan_repos cfg w = ([Print (MsgNoRepositories (ROOT_DIR cfg))], Inr [])"
    if "\<not> path_exists w (ROOT_DIR cfg)"
    using that by (simp add: scan_repos_def)
  show ?thesis unfolding md using cp sc by simp
qed

theorem missing_root_reported_witness:
  "\<not> path_exists missing_root_world (ROOT_DIR example_cfg) \<and>
   check_permissions example_cfg missing_root_world =
     ([Print (MsgWarnNoDirectory ''/home/sauron/unexusi/''), Print (MsgCurrentMode ''Laptop (Base)'')],
      Inr False) \<and>
   main_dashboard example_cfg (\<lambda>k. missing_root_world) [''''] =
     ([Print (MsgWarnNoDirectory ''/home/sauron/unexusi/''), Print (MsgCurrentMode ''Laptop (Base)''),
       Input PromptExit], Inr ()) \<and>
   scan_repos example_cfg missing_root_world
     = ([Print (MsgNoRepositories ''/home/sauron/unexusi/'')], Inr [])"
proof -
  have h: "\<not> path_exists ((\<lambda>k. missing_root_world) (0::nat)) (ROOT_DIR example_cfg)"
    by (simp add: missing_root_world_def)
  have m: "\<not> str_contains ''Mobile'' ''Laptop (Base)''" by simp
  from missing_root_reported[OF h, of "['''']" missing_root_world] h
  show ?thesis by (simp add: example_root example_device m)
qed

end
